theory Spec2Isabelle
  imports Complex_Main "HOL-Library.Log_Nat" "HOL-Library.Word"
begin

section \<open>Outcomes of a call\<close>

text \<open>
  A member function either returns, or leaves by a \<^verbatim>\<open>cet::exception(category) << message\<close>,
  or does something C++ gives no meaning to (an unchecked index past the end of a
  \<^verbatim>\<open>std::vector\<close>, a dereferenced null \<^verbatim>\<open>unique_ptr\<close>, an integer division by zero).
  The last is kept apart from the exceptions, so that no theorem mistakes it for one.
\<close>

datatype failure =
    Exception string string
  | Undefined_behaviour

section \<open>Single-precision floats\<close>

text \<open>
  A \<^verbatim>\<open>float\<close> is IEEE binary32. A finite float is taken as the rational number it denotes;
  NaN and the infinities are not values of the model. Arithmetic rounds to the nearest
  float, ties to the even significand: \<open>binary32\<close> is that rounding, for normal and
  subnormal results alike. It does not round a huge result to infinity; its only uses
  are the conversion of a \<^verbatim>\<open>size_t\<close>, which cannot overflow, and a quotient that is
  converted to \<^verbatim>\<open>size_t\<close> at once, where infinity and every float from \<open>2^64\<close> on are
  undefined alike.
\<close>

definition pow2 :: "int \<Rightarrow> rat" where
  "pow2 k = (if 0 \<le> k then 2 ^ nat k else 1 / 2 ^ nat (- k))"

text \<open>The exponent of a positive rational: \<open>2^e \<le> a < 2^(e+1)\<close>.\<close>

definition ilog2 :: "rat \<Rightarrow> int" where
  "ilog2 a = (if 1 \<le> a then bitlen \<lfloor>a\<rfloor> - 1 else - bitlen (\<lceil>1 / a\<rceil> - 1))"

definition round_even :: "rat \<Rightarrow> int" where
  "round_even y =
     (let f = \<lfloor>y\<rfloor>; r = y - of_int f
      in if r < 1 / 2 then f else if 1 / 2 < r then f + 1 else if even f then f else f + 1)"

definition binary32 :: "rat \<Rightarrow> rat" where
  "binary32 x =
     (if x = 0 then 0
      else
        (let e = max (ilog2 \<bar>x\<bar>) (- 126);
             u = pow2 (e - 23)
         in sgn x * of_int (round_even (\<bar>x\<bar> / u)) * u))"

definition is_binary32 :: "rat \<Rightarrow> bool" where
  "is_binary32 x = (binary32 x = x \<and> \<bar>x\<bar> < 2 ^ 128)"

text \<open>
  \<^verbatim>\<open>(float)n\<close> for a \<^verbatim>\<open>size_t\<close>, and \<^verbatim>\<open>(size_t)x\<close> for a float: the fraction is dropped, and
  the conversion is undefined unless the result fits, that is unless \<open>-1 < x < 2^64\<close>.
\<close>

definition to_float :: "nat \<Rightarrow> rat" where
  "to_float n = binary32 (of_nat n)"

definition to_size_t :: "rat \<Rightarrow> nat option" where
  "to_size_t x = (if - 1 < x \<and> x < 2 ^ 64 then Some (nat \<lfloor>x\<rfloor>) else None)"

section \<open>PointIdAlg.h: the single-slot patch buffer of \<^verbatim>\<open>nnet::PointIdAlg\<close>\<close>

text \<open>
  A \<^verbatim>\<open>size_t\<close> is a natural number; the code does no arithmetic on one. A patch is the
  vector of vectors of floats.
\<close>

type_synonym patch = "rat list list"

text \<open>
  The part of the base class \<^verbatim>\<open>img::DataProviderAlg\<close> that \<^verbatim>\<open>bufferPatch\<close> reads. The class
  is not among the sources: its two configuration fields are fields here
  (\<^verbatim>\<open>fDriftWindow\<close> an unsigned integer), and its two const extraction methods are
  parameters, each a function of wire, drift, the two patch sizes and the patch it is
  given to fill, returning its bool and the patch it leaves.
\<close>

record DataProviderAlg =
  fDownscaleFullView :: bool
  fDriftWindow :: nat
  patchFromDownsampledView :: "nat \<Rightarrow> rat \<Rightarrow> nat \<Rightarrow> nat \<Rightarrow> patch \<Rightarrow> bool \<times> patch"
  patchFromOriginalView :: "nat \<Rightarrow> rat \<Rightarrow> nat \<Rightarrow> nat \<Rightarrow> patch \<Rightarrow> bool \<times> patch"

record PointIdAlg =
  fWireDriftPatch :: patch
  fPatchSizeW :: nat
  fPatchSizeD :: nat
  fCurrentWireIdx :: nat
  fCurrentScaledDrift :: nat

text \<open>
  \<^verbatim>\<open>size_t sd = (size_t)(drift / fDriftWindow);\<close> The window is converted to float, the
  division is a float division, and the quotient is converted to \<^verbatim>\<open>size_t\<close>. With a
  window of zero the quotient is an infinity or NaN, and the conversion is undefined.
\<close>

definition scaledDrift :: "DataProviderAlg \<Rightarrow> rat \<Rightarrow> nat option" where
  "scaledDrift base drift =
     (if fDriftWindow base = 0 then None
      else to_size_t (binary32 (drift / to_float (fDriftWindow base))))"

text \<open>
  \<^verbatim>\<open>bool bufferPatch(size_t wire, float drift, std::vector<std::vector<float>>& patch) const\<close>:
  the result, the object with its two mutable slots, and the patch passed by reference.
  In the else branch \<^verbatim>\<open>fCurrentScaledDrift == drift\<close> compares the slot, converted to float,
  with the float, and \<^verbatim>\<open>fCurrentScaledDrift = drift\<close> stores the float converted to
  \<^verbatim>\<open>size_t\<close>.
\<close>

definition bufferPatch3 ::
  "DataProviderAlg \<Rightarrow> PointIdAlg \<Rightarrow> nat \<Rightarrow> rat \<Rightarrow> patch \<Rightarrow> failure + (bool \<times> PointIdAlg \<times> patch)" where
  "bufferPatch3 base alg wire drift patch =
     (if fDownscaleFullView base then
        (case scaledDrift base drift of
           None \<Rightarrow> Inl Undefined_behaviour
         | Some sd \<Rightarrow>
             if fCurrentWireIdx alg = wire \<and> fCurrentScaledDrift alg = sd
             then Inr (True, alg, patch)
             else
               (let alg' = alg\<lparr>fCurrentWireIdx := wire, fCurrentScaledDrift := sd\<rparr>;
                    (ok, patch') =
                      patchFromDownsampledView base wire drift (fPatchSizeW alg') (fPatchSizeD alg')
                        patch
                in Inr (ok, alg', patch')))
      else
        (if fCurrentWireIdx alg = wire \<and> to_float (fCurrentScaledDrift alg) = drift
         then Inr (True, alg, patch)
         else
           (case to_size_t drift of
              None \<Rightarrow> Inl Undefined_behaviour
            | Some sd \<Rightarrow>
                (let alg' = alg\<lparr>fCurrentWireIdx := wire, fCurrentScaledDrift := sd\<rparr>;
                     (ok, patch') =
                       patchFromOriginalView base wire drift (fPatchSizeW alg') (fPatchSizeD alg')
                         patch
                 in Inr (ok, alg', patch')))))"

text \<open>
  \<^verbatim>\<open>bool bufferPatch(size_t wire, float drift) const\<close> passes the member
  \<^verbatim>\<open>fWireDriftPatch\<close> as the patch, so what the extraction writes lands in the member.
\<close>

definition bufferPatch ::
  "DataProviderAlg \<Rightarrow> PointIdAlg \<Rightarrow> nat \<Rightarrow> rat \<Rightarrow> failure + (bool \<times> PointIdAlg)" where
  "bufferPatch base alg wire drift =
     (case bufferPatch3 base alg wire drift (fWireDriftPatch alg) of
        Inl f \<Rightarrow> Inl f
      | Inr (ok, alg', patch') \<Rightarrow> Inr (ok, alg'\<lparr>fWireDriftPatch := patch'\<rparr>))"

text \<open>An extraction that fails and leaves the patch as it found it.\<close>

definition failingView :: "nat \<Rightarrow> rat \<Rightarrow> nat \<Rightarrow> nat \<Rightarrow> patch \<Rightarrow> bool \<times> patch" where
  "failingView wire drift size_w size_d patch = (False, patch)"


section \<open>MVAWriter.h: \<^verbatim>\<open>anab::MVAWriter<N>\<close>\<close>

text \<open>
  A template argument \<^verbatim>\<open>T\<close> reaches the writer through \<^verbatim>\<open>typeid(T)\<close> only, by
  \<^verbatim>\<open>getProductHash\<close> and \<^verbatim>\<open>getProductName\<close> of the base class \<^verbatim>\<open>MVAWrapperBase\<close> (not
  among the sources): a type is the pair of what the two return.
\<close>

record product_type =
  getProductHash :: nat
  getProductName :: string

text \<open>
  \<^verbatim>\<open>anab::MVADescription<N>\<close> as the writer builds it, from \<^verbatim>\<open>dataTag.encode()\<close> and the
  output instance name; \<^verbatim>\<open>anab::MVAOutput<N>\<close> is \<open>N\<close> floats.
\<close>

record MVADescription =
  dataTag :: string
  outputInstance :: string

type_synonym MVAOutput = "rat list"

text \<open>What the module has been told it produces, and what has been put into an event.\<close>

datatype declared =
    Produces_MVADescriptions string
  | Produces_MVAOutputs string

datatype product =
    MVAOutputs "MVAOutput list"
  | MVADescriptions "MVADescription list"

type_synonym event = "(string \<times> product) list"

record MVAWriter =
  fProducer :: "declared list"
  fInstanceName :: string
  fRegisteredDataTypes :: "string list"
  fIsDescriptionRegistered :: bool
  fTypeHashToID :: "nat \<rightharpoonup> nat"
  fOutputs :: "MVAOutput list list"
  fDescriptions :: "MVADescription list option"

definition MVAWriter_new :: "declared list \<Rightarrow> string \<Rightarrow> MVAWriter" where
  "MVAWriter_new producer name =
     \<lparr>fProducer = producer, fInstanceName = name, fRegisteredDataTypes = [],
      fIsDescriptionRegistered = False, fTypeHashToID = Map.empty, fOutputs = [],
      fDescriptions = None\<rparr>"

definition clearEventData :: "MVAWriter \<Rightarrow> MVAWriter" where
  "clearEventData w = w\<lparr>fTypeHashToID := Map.empty, fOutputs := [], fDescriptions := None\<rparr>"

definition getProductID :: "MVAWriter \<Rightarrow> product_type \<Rightarrow> failure + nat" where
  "getProductID w T =
     (case fTypeHashToID w (getProductHash T) of
        Some oid \<Rightarrow> Inr oid
      | None \<Rightarrow>
          Inl (Exception ''MVAWriter'' (''MVA not initialized for product '' @ getProductName T)))"

definition produces_using :: "MVAWriter \<Rightarrow> product_type \<Rightarrow> MVAWriter" where
  "produces_using w T =
     (let w1 = (if \<not> fIsDescriptionRegistered w
                then w\<lparr>fProducer := fProducer w @ [Produces_MVADescriptions (fInstanceName w)],
                       fIsDescriptionRegistered := True\<rparr>
                else w);
          dataName = getProductName T
      in w1\<lparr>fProducer := fProducer w1 @ [Produces_MVAOutputs (fInstanceName w1 @ dataName)],
             fRegisteredDataTypes := fRegisteredDataTypes w1 @ [dataName]\<rparr>)"

definition descriptionExists :: "MVAWriter \<Rightarrow> string \<Rightarrow> bool" where
  "descriptionExists w tname =
     (case fDescriptions w of
        None \<Rightarrow> False
      | Some ds \<Rightarrow> list_ex (\<lambda>d. outputInstance d = fInstanceName w @ tname) ds)"

text \<open>
  \<^verbatim>\<open>initOutputs<T>(dataTag, dataSize, names)\<close>, with \<open>N\<close> the template argument of the
  writer and \<open>dataTag\<close> the encoded tag. The exception is thrown before anything is
  written, so the writer it leaves is the one it found. \<open>names\<close> is not used by the body.
\<close>

definition initOutputs ::
  "nat \<Rightarrow> MVAWriter \<Rightarrow> product_type \<Rightarrow> string \<Rightarrow> nat \<Rightarrow> string list \<Rightarrow> failure + (nat \<times> MVAWriter)" where
  "initOutputs N w T tag dataSize names =
     (let dataHash = getProductHash T; dataName = getProductName T in
      if fDescriptions w \<noteq> None \<and> descriptionExists w dataName
      then Inl (Exception ''MVAWriter'' (''MVADescription<N> already initialized for '' @ dataName))
      else
        (let ds = (case fDescriptions w of None \<Rightarrow> [] | Some ds \<Rightarrow> ds);
             ds' = ds @ [\<lparr>dataTag = tag, outputInstance = fInstanceName w @ dataName\<rparr>];
             outs = fOutputs w @ [[]];
             oid = length outs - 1;
             outs' = (if dataSize \<noteq> 0 then outs[oid := replicate dataSize (replicate N 0)] else outs)
         in Inr (oid, w\<lparr>fTypeHashToID := (fTypeHashToID w)(dataHash \<mapsto> oid),
                         fOutputs := outs', fDescriptions := Some ds'\<rparr>)))"

text \<open>
  \<^verbatim>\<open>setOutput(id, key, values)\<close> and \<^verbatim>\<open>addOutput(id, values)\<close> index \<^verbatim>\<open>fOutputs\<close> and the
  collection with \<^verbatim>\<open>operator[]\<close>, which checks nothing.
\<close>

definition setOutput :: "MVAWriter \<Rightarrow> nat \<Rightarrow> nat \<Rightarrow> MVAOutput \<Rightarrow> failure + MVAWriter" where
  "setOutput w oid key values =
     (if oid < length (fOutputs w) \<and> key < length (fOutputs w ! oid)
      then Inr (w\<lparr>fOutputs := (fOutputs w)[oid := (fOutputs w ! oid)[key := values]]\<rparr>)
      else Inl Undefined_behaviour)"

definition addOutput :: "MVAWriter \<Rightarrow> nat \<Rightarrow> MVAOutput \<Rightarrow> failure + MVAWriter" where
  "addOutput w oid values =
     (if oid < length (fOutputs w)
      then Inr (w\<lparr>fOutputs := (fOutputs w)[oid := fOutputs w ! oid @ [values]]\<rparr>)
      else Inl Undefined_behaviour)"

text \<open>
  \<^verbatim>\<open>getOutput<T>(size_t key)\<close>; \<^verbatim>\<open>getOutput<T>(art::Ptr<T> const&)\<close> is the same at
  \<^verbatim>\<open>item.key()\<close>. The loop copies the \<open>N\<close> entries of the stored vector.
\<close>

definition getOutput :: "MVAWriter \<Rightarrow> product_type \<Rightarrow> nat \<Rightarrow> failure + MVAOutput" where
  "getOutput w T key =
     (case getProductID w T of
        Inl e \<Rightarrow> Inl e
      | Inr oid \<Rightarrow>
          if oid < length (fOutputs w) \<and> key < length (fOutputs w ! oid)
          then Inr (fOutputs w ! oid ! key)
          else Inl Undefined_behaviour)"

text \<open>
  The four accumulating overloads \<^verbatim>\<open>getOutput<T>(items, ...)\<close> pass
  \<^verbatim>\<open>*(fOutputs[getProductID<T>()])\<close> to \<^verbatim>\<open>pAccumulate<T, N>\<close> of the base class:
  \<open>accumulate\<close> stands for that call with the items and the weights already given to it.
\<close>

definition getOutput_accumulated ::
  "(MVAOutput list \<Rightarrow> MVAOutput) \<Rightarrow> MVAWriter \<Rightarrow> product_type \<Rightarrow> failure + MVAOutput" where
  "getOutput_accumulated accumulate w T =
     (case getProductID w T of
        Inl e \<Rightarrow> Inl e
      | Inr oid \<Rightarrow>
          if oid < length (fOutputs w) then Inr (accumulate (fOutputs w ! oid))
          else Inl Undefined_behaviour)"

text \<open>
  Modelled from the spec: \<^verbatim>\<open>pAccumulate<T, N>(items, outs)\<close> of the base class
  \<^verbatim>\<open>MVAWrapperBase\<close>, which is not among the sources. The spec (4.6) has it as the
  unweighted arithmetic mean of the score vectors of the items, and for an empty list a
  defined default, the all-zero vector. An item is its key, the index of its vector in
  the collection; scores are rationals.
\<close>

definition pAccumulate :: "nat \<Rightarrow> nat list \<Rightarrow> MVAOutput list \<Rightarrow> MVAOutput" where
  "pAccumulate N items outs =
     (if items = [] then replicate N 0
      else map (\<lambda>s. s / of_nat (length items))
             (foldl (\<lambda>acc key. map2 (+) acc (outs ! key)) (replicate N 0) items))"

text \<open>
  Modelled from the spec: \<^verbatim>\<open>pAccumulate<T, N>(items, weights, outs)\<close> of
  \<^verbatim>\<open>MVAWrapperBase\<close>, not among the sources. The spec (4.6) has it as the mean weighted
  by per-item weights supplied with the items; nothing is divided by zero, and an empty
  list or a zero total weight gives the all-zero vector.
\<close>

definition pAccumulate_weights ::
  "nat \<Rightarrow> nat list \<Rightarrow> rat list \<Rightarrow> MVAOutput list \<Rightarrow> MVAOutput" where
  "pAccumulate_weights N items weights outs =
     (let totw = sum_list (map snd (zip items weights)) in
      if items = [] \<or> totw = 0 then replicate N 0
      else map (\<lambda>s. s / totw)
             (foldl (\<lambda>acc (key, wt). map2 (\<lambda>a x. a + wt * x) acc (outs ! key)) (replicate N 0)
                (zip items weights)))"

text \<open>
  Modelled from the spec: \<^verbatim>\<open>pAccumulate<T, N>(items, fweight, outs)\<close> of
  \<^verbatim>\<open>MVAWrapperBase\<close>, not among the sources. The spec (4.6) has it as the weighted mean
  with a weighting function of the caller evaluated per item.
\<close>

definition pAccumulate_fweight ::
  "nat \<Rightarrow> nat list \<Rightarrow> (nat \<Rightarrow> rat) \<Rightarrow> MVAOutput list \<Rightarrow> MVAOutput" where
  "pAccumulate_fweight N items fweight outs = pAccumulate_weights N items (map fweight items) outs"

text \<open>
  \<^verbatim>\<open>saveOutputs(evt)\<close>. \<^verbatim>\<open>evt.put\<close> is the event store's, taken to append. With no
  Description container, \<^verbatim>\<open>fDescriptions->size()\<close> dereferences a null pointer.
\<close>

definition saveOutputs :: "MVAWriter \<Rightarrow> event \<Rightarrow> failure + (event \<times> MVAWriter)" where
  "saveOutputs w evt =
     (case find (\<lambda>n. \<not> descriptionExists w n) (fRegisteredDataTypes w) of
        Some n \<Rightarrow> Inl (Exception ''MVAWriter'' (''No MVADescription<N> prepared for type '' @ n))
      | None \<Rightarrow>
          (case fDescriptions w of
             None \<Rightarrow> Inl Undefined_behaviour
           | Some ds \<Rightarrow>
               if length (fOutputs w) \<noteq> length ds
               then Inl (Exception ''MVAWriter''
                      ''MVADescription<N> vector length not equal to the number of MVAOutput<N> vectors'')
               else Inr (evt @ map2 (\<lambda>out d. (outputInstance d, MVAOutputs out)) (fOutputs w) ds
                             @ [(fInstanceName w, MVADescriptions ds)],
                         clearEventData w)))"

text \<open>
  The calls a module makes on its writer while it fills one event, and a run of them: the
  first failure ends the run.
\<close>

datatype writer_call =
    InitOutputs product_type string nat "string list"
  | SetOutput nat nat MVAOutput
  | AddOutput nat MVAOutput

fun call :: "nat \<Rightarrow> MVAWriter \<Rightarrow> writer_call \<Rightarrow> failure + MVAWriter" where
  "call N w (InitOutputs T tag dataSize names) =
     (case initOutputs N w T tag dataSize names of Inl e \<Rightarrow> Inl e | Inr (oid, w') \<Rightarrow> Inr w')"
| "call N w (SetOutput oid key values) = setOutput w oid key values"
| "call N w (AddOutput oid values) = addOutput w oid values"

fun calls :: "nat \<Rightarrow> MVAWriter \<Rightarrow> writer_call list \<Rightarrow> failure + MVAWriter" where
  "calls N w [] = Inr w"
| "calls N w (c # cs) = (case call N w c of Inl e \<Rightarrow> Inl e | Inr w' \<Rightarrow> calls N w' cs)"

fun initialises :: "product_type \<Rightarrow> writer_call \<Rightarrow> bool" where
  "initialises T (InitOutputs T' tag dataSize names) = (getProductHash T' = getProductHash T)"
| "initialises T (SetOutput oid key values) = False"
| "initialises T (AddOutput oid values) = False"

section \<open>triton_utils.cc: \<^verbatim>\<open>throwIfError\<close> and \<^verbatim>\<open>warnIfError\<close>\<close>

text \<open>
  The client library's \<^verbatim>\<open>Error\<close>, by the two things the code asks of it: \<^verbatim>\<open>IsOk()\<close> and
  what \<^verbatim>\<open>operator<<\<close> prints. The message logger is the list of warnings it was given,
  each a category and a text.
\<close>

record Error =
  IsOk :: bool
  printed :: string

definition throwIfError :: "Error \<Rightarrow> string \<Rightarrow> failure + unit" where
  "throwIfError err msg =
     (if \<not> IsOk err then Inl (Exception ''TritonServerFailure'' (msg @ '': '' @ printed err))
      else Inr ())"

definition warnIfError ::
  "(string \<times> string) list \<Rightarrow> Error \<Rightarrow> string \<Rightarrow> failure + (bool \<times> (string \<times> string) list)" where
  "warnIfError logger err msg =
     (let logger' = (if \<not> IsOk err
                     then logger @ [(''TritonServerWarning'', msg @ '': '' @ printed err)]
                     else logger)
      in Inr (IsOk err, logger'))"

section \<open>WireClusterFinder_module.cc: \<^verbatim>\<open>nnet::WireClusterFinder::produce\<close>\<close>

text \<open>
  A \<^verbatim>\<open>recob::Wire\<close> by what the module reads of it: the channel (\<^verbatim>\<open>raw::ChannelID_t\<close>, an
  unsigned 32-bit integer), the view and the ranges of its signal ROI. \<^verbatim>\<open>fNChanPerApa\<close>
  is an \<^verbatim>\<open>int\<close>; in \<^verbatim>\<open>chan / fNChanPerApa\<close> it is converted to unsigned, the division is
  unsigned, and the quotient is converted back to the \<^verbatim>\<open>int\<close> of the pair: the same 32
  bits throughout. Division by zero is undefined.
\<close>

record Wire =
  Channel :: "32 word"
  View :: nat
  SignalROI :: "(nat \<times> rat list) list"

type_synonym ApaView = "32 word \<times> nat"

record WireClusterFinder =
  fWireProducerLabel :: string
  fLogLevel :: int
  fNChanPerApa :: "32 word"

definition GetApaView :: "WireClusterFinder \<Rightarrow> Wire \<Rightarrow> failure + ApaView" where
  "GetApaView m wire =
     (let chan = Channel wire in
      if fNChanPerApa m = 0 then Inl Undefined_behaviour
      else Inr (chan div fNChanPerApa m, View wire))"

text \<open>
  \<^verbatim>\<open>std::sort\<close> by channel, increasing or decreasing; where two wires share a channel the
  standard leaves their order open, and the model keeps the order they came in, in
  either direction.
\<close>

definition SortWirePtrByChannel :: "Wire list \<Rightarrow> bool \<Rightarrow> Wire list" where
  "SortWirePtrByChannel vec increasing =
     (if increasing then sort_key (\<lambda>a. int (unat (Channel a))) vec
      else sort_key (\<lambda>a. - int (unat (Channel a))) vec)"

text \<open>The first loop of \<^verbatim>\<open>produce\<close>: wires with an ROI, collected by APA and view.\<close>

fun collectByApaView ::
  "WireClusterFinder \<Rightarrow> Wire list \<Rightarrow> (ApaView \<rightharpoonup> Wire list) \<Rightarrow> failure + (ApaView \<rightharpoonup> Wire list)" where
  "collectByApaView m [] apaViewWirePtrVec = Inr apaViewWirePtrVec"
| "collectByApaView m (wire # rest) apaViewWirePtrVec =
     (if length (SignalROI wire) = 0 then collectByApaView m rest apaViewWirePtrVec
      else
        (case GetApaView m wire of
           Inl e \<Rightarrow> Inl e
         | Inr apaView \<Rightarrow>
             collectByApaView m rest
               (apaViewWirePtrVec(apaView \<mapsto>
                  (case apaViewWirePtrVec apaView of None \<Rightarrow> [] | Some v \<Rightarrow> v) @ [wire]))))"

text \<open>
  \<^verbatim>\<open>produce(e)\<close>: the event is the list of \<^verbatim>\<open>std::vector<recob::Wire>\<close> collections put
  into it, and \<open>wireListHandle\<close> is what \<^verbatim>\<open>getByLabel\<close> finds, if anything. The second
  loop sorts every collected vector, twice more when the log level asks for the printing;
  what goes to standard output is left out.
\<close>

definition produce ::
  "WireClusterFinder \<Rightarrow> Wire list option \<Rightarrow> Wire list list \<Rightarrow> failure + Wire list list" where
  "produce m wireListHandle e =
     (let wirelist = (case wireListHandle of Some ws \<Rightarrow> ws | None \<Rightarrow> []);
          outwires = []
      in case collectByApaView m wirelist Map.empty of
           Inl f \<Rightarrow> Inl f
         | Inr apaViewWirePtrVec \<Rightarrow>
             (let sorted =
                    (\<lambda>p. map_option
                       (\<lambda>v. let v' = (if 3 \<le> fLogLevel m
                                        then SortWirePtrByChannel (SortWirePtrByChannel v False) True
                                        else v)
                            in SortWirePtrByChannel v' True)
                       (apaViewWirePtrVec p))
              in Inr (e @ [outwires])))"

text \<open>
  How many Descriptions the container holds for a type name: the entries the loop of
  \<^verbatim>\<open>descriptionExists\<close> would accept.
\<close>

definition descriptionCount :: "MVAWriter \<Rightarrow> string \<Rightarrow> nat" where
  "descriptionCount w tname =
     (case fDescriptions w of
        None \<Rightarrow> 0
      | Some ds \<Rightarrow> length (filter (\<lambda>d. outputInstance d = fInstanceName w @ tname) ds))"

section \<open>Concrete objects\<close>

text \<open>
  Three data providers that downscale, with windows of 10, 4 and 4097 ticks and
  extractions that fail, and a point identifier whose slots hold a position that no
  query below asks for. Two
  product types; a writer named \<open>emtrack\<close> with two outputs, after
  \<^verbatim>\<open>produces_using<recob::Hit>()\<close>, the same writer after
  \<^verbatim>\<open>initOutputs<recob::Hit>("hits", 1)\<close>, and one that holds the scores of two hits; a
  cluster finder with the default 2560 channels per APA, and a wire with one ROI.
\<close>

definition window_10 :: DataProviderAlg where
  "window_10 = \<lparr>fDownscaleFullView = True, fDriftWindow = 10,
                 patchFromDownsampledView = failingView, patchFromOriginalView = failingView\<rparr>"

definition window_4 :: DataProviderAlg where
  "window_4 = \<lparr>fDownscaleFullView = True, fDriftWindow = 4,
                patchFromDownsampledView = failingView, patchFromOriginalView = failingView\<rparr>"

definition window_4097 :: DataProviderAlg where
  "window_4097 = \<lparr>fDownscaleFullView = True, fDriftWindow = 4097,
                   patchFromDownsampledView = failingView, patchFromOriginalView = failingView\<rparr>"

definition idle_alg :: PointIdAlg where
  "idle_alg = \<lparr>fWireDriftPatch = [[0, 0], [0, 0]], fPatchSizeW = 2, fPatchSizeD = 2,
                fCurrentWireIdx = 99999, fCurrentScaledDrift = 99999\<rparr>"

definition recob_Hit :: product_type where
  "recob_Hit = \<lparr>getProductHash = 1, getProductName = ''recob::Hit''\<rparr>"

definition recob_Cluster :: product_type where
  "recob_Cluster = \<lparr>getProductHash = 2, getProductName = ''recob::Cluster''\<rparr>"

definition emtrack_declared :: MVAWriter where
  "emtrack_declared = produces_using (MVAWriter_new [] ''emtrack'') recob_Hit"

definition emtrack_hits :: MVAWriter where
  "emtrack_hits =
     \<lparr>fProducer = [Produces_MVADescriptions ''emtrack'', Produces_MVAOutputs ''emtrackrecob::Hit''],
      fInstanceName = ''emtrack'', fRegisteredDataTypes = [''recob::Hit''],
      fIsDescriptionRegistered = True, fTypeHashToID = [1 \<mapsto> 0], fOutputs = [[[0, 0]]],
      fDescriptions = Some [\<lparr>dataTag = ''hits'', outputInstance = ''emtrackrecob::Hit''\<rparr>]\<rparr>"

definition emtrack_scored :: MVAWriter where
  "emtrack_scored = emtrack_hits\<lparr>fOutputs := [[[1 / 5, 4 / 5], [3 / 5, 2 / 5]]]\<rparr>"

definition apa_module :: WireClusterFinder where
  "apa_module = \<lparr>fWireProducerLabel = ''caldata'', fLogLevel = 0, fNChanPerApa = 2560\<rparr>"

definition wire_2600 :: Wire where
  "wire_2600 = \<lparr>Channel = 2600, View = 2, SignalROI = [(10, [1, 2])]\<rparr>"


section \<open>Single-precision floats: the rounding\<close>

lemma round_even_of_int: "round_even (of_int m) = m"
  by (simp add: round_even_def)

lemma round_even_near: "\<bar>of_int (round_even y) - y\<bar> \<le> 1 / 2"
proof -
  have lo: "of_int \<lfloor>y\<rfloor> \<le> y" and hi: "y < of_int \<lfloor>y\<rfloor> + 1" by linarith+
  consider "round_even y = \<lfloor>y\<rfloor>" "y - of_int \<lfloor>y\<rfloor> \<le> 1 / 2"
    | "round_even y = \<lfloor>y\<rfloor> + 1" "1 / 2 \<le> y - of_int \<lfloor>y\<rfloor>"
    unfolding round_even_def Let_def by (cases "y - of_int \<lfloor>y\<rfloor> < 1 / 2";
      cases "1 / 2 < y - of_int \<lfloor>y\<rfloor>"; cases "even \<lfloor>y\<rfloor>") simp_all
  then show ?thesis
  proof cases
    case 1
    with lo show ?thesis by simp
  next
    case 2
    with hi show ?thesis by simp
  qed
qed

lemma pow2_pos: "0 < pow2 k"
  by (simp add: pow2_def)

lemma ilog2_bounds:
  assumes "0 < a"
  shows "pow2 (ilog2 a) \<le> a \<and> a < pow2 (ilog2 a + 1)"
proof (cases "1 \<le> a")
  case True
  define f where "f = \<lfloor>a\<rfloor>"
  have f: "0 < f" using True by (simp add: f_def)
  have k: "ilog2 a = bitlen f - 1" using True by (simp add: ilog2_def f_def)
  from bitlen_bounds [OF f] have lo: "2 ^ nat (bitlen f - 1) \<le> f" and hi: "f < 2 ^ nat (bitlen f)"
    by simp_all
  have pos: "0 < bitlen f" using f bitlen_eq_zero_iff [of f] bitlen_nonneg [of f] by linarith
  have "rat_of_int (2 ^ nat (bitlen f - 1)) \<le> of_int f" using lo by (simp only: of_int_le_iff)
  also have "\<dots> \<le> a" by (simp add: f_def)
  finally have 1: "pow2 (ilog2 a) \<le> a" using pos by (simp add: k pow2_def)
  have "f + 1 \<le> 2 ^ nat (bitlen f)" using hi by simp
  then have "rat_of_int (f + 1) \<le> of_int (2 ^ nat (bitlen f))" by (simp only: of_int_le_iff)
  moreover have "a < of_int (f + 1)" unfolding f_def by linarith
  ultimately have 2: "a < pow2 (ilog2 a + 1)" using pos by (simp add: k pow2_def)
  from 1 2 show ?thesis ..
next
  case False
  define c where "c = \<lceil>1 / a\<rceil>"
  have a1: "a < 1" using False by simp
  then have b1: "1 < 1 / a" using assms by simp
  then have c2: "0 < c - 1" unfolding c_def by linarith
  have k: "ilog2 a = - bitlen (c - 1)" using False by (simp add: ilog2_def c_def)
  from bitlen_bounds [OF c2] have lo: "2 ^ nat (bitlen (c - 1) - 1) \<le> c - 1"
    and hi: "c - 1 < 2 ^ nat (bitlen (c - 1))" by simp_all
  have pos: "0 < bitlen (c - 1)"
    using c2 bitlen_eq_zero_iff [of "c - 1"] bitlen_nonneg [of "c - 1"] by linarith
  define j where "j = nat (bitlen (c - 1))"
  have j: "bitlen (c - 1) = int j" "0 < j" using pos by (simp_all add: j_def)
  have "c \<le> 2 ^ j" using hi by (simp add: j_def)
  then have "rat_of_int c \<le> of_int (2 ^ j)" by (simp only: of_int_le_iff)
  then have "rat_of_int c \<le> 2 ^ j" by simp
  moreover have "1 / a \<le> of_int c" unfolding c_def by linarith
  ultimately have "1 / a \<le> 2 ^ j" by linarith
  then have "1 \<le> a * 2 ^ j" using assms by (simp add: field_simps)
  then have "1 / 2 ^ j \<le> a" by (simp add: divide_le_eq)
  moreover have "pow2 (ilog2 a) = 1 / 2 ^ j"
    unfolding k j(1) using j(2) by (simp add: pow2_def)
  ultimately have 1: "pow2 (ilog2 a) \<le> a" by simp
  have "nat (bitlen (c - 1) - 1) = j - 1" using pos by (simp add: j_def nat_diff_distrib)
  with lo have "2 ^ (j - 1) \<le> c - 1" by simp
  then have "rat_of_int (2 ^ (j - 1)) \<le> of_int (c - 1)" by (simp only: of_int_le_iff)
  then have "2 ^ (j - 1) \<le> rat_of_int (c - 1)" by simp
  moreover have "rat_of_int (c - 1) < 1 / a" unfolding c_def by linarith
  ultimately have "2 ^ (j - 1) < 1 / a" by linarith
  then have "a * 2 ^ (j - 1) < 1" using assms by (simp add: field_simps)
  then have lt: "a < 1 / 2 ^ (j - 1)" by (simp add: less_divide_eq)
  have 2: "a < pow2 (ilog2 a + 1)"
  proof (cases "j = 1")
    case True
    then have "pow2 (ilog2 a + 1) = 1" unfolding k j(1) by (simp add: pow2_def)
    then show ?thesis using a1 by simp
  next
    case False
    then have "\<not> 0 \<le> - int j + 1" "nat (int j - 1) = j - 1" using j by simp_all
    then have "pow2 (ilog2 a + 1) = 1 / 2 ^ (j - 1)" unfolding k j(1) by (simp add: pow2_def)
    then show ?thesis using lt by simp
  qed
  from 1 2 show ?thesis ..
qed

lemma binary32_near:
  assumes "x \<noteq> 0"
  shows "\<bar>binary32 x - x\<bar> \<le> pow2 (max (ilog2 \<bar>x\<bar>) (- 126) - 23) / 2"
proof -
  define u where "u = pow2 (max (ilog2 \<bar>x\<bar>) (- 126) - 23)"
  have u: "0 < u" by (simp add: u_def pow2_pos)
  define n where "n = round_even (\<bar>x\<bar> / u)"
  have val: "binary32 x = sgn x * of_int n * u"
    using assms by (simp add: binary32_def Let_def u_def n_def)
  have "binary32 x - x = sgn x * (of_int n * u - \<bar>x\<bar>)"
    unfolding val by (simp add: algebra_simps flip: abs_sgn) (simp add: mult.commute abs_sgn)
  then have "\<bar>binary32 x - x\<bar> = \<bar>of_int n * u - \<bar>x\<bar>\<bar>"
    using assms by (simp add: abs_mult)
  also have "of_int n * u - \<bar>x\<bar> = (of_int n - \<bar>x\<bar> / u) * u"
    using u by (simp add: field_simps)
  also have "\<bar>\<dots>\<bar> = \<bar>of_int n - \<bar>x\<bar> / u\<bar> * u"
    using u by (simp add: abs_mult)
  also have "\<dots> \<le> 1 / 2 * u"
    using round_even_near [of "\<bar>x\<bar> / u"] u unfolding n_def
    by (intro mult_right_mono) simp_all
  finally show ?thesis by (simp add: u_def)
qed

lemma binary32_of_nat_integral: "\<exists>m::int. binary32 (of_nat n) = of_int m"
proof (cases "n = 0")
  case True
  then show ?thesis by (simp add: binary32_def)
next
  case False
  define e where "e = max (ilog2 \<bar>rat_of_nat n\<bar>) (- 126)"
  have val: "binary32 (of_nat n) =
      of_int (round_even (of_nat n / pow2 (e - 23))) * pow2 (e - 23)"
    using False by (simp add: binary32_def e_def Let_def)
  show ?thesis
  proof (cases "0 \<le> e - 23")
    case True
    then have "pow2 (e - 23) = of_int (2 ^ nat (e - 23))"
      by (simp add: pow2_def)
    then have "binary32 (of_nat n) =
        of_int (round_even (of_nat n / pow2 (e - 23)) * 2 ^ nat (e - 23))"
      unfolding val by simp
    then show ?thesis by blast
  next
    case neg: False
    then have u: "pow2 (e - 23) = 1 / 2 ^ nat (- (e - 23))"
      by (simp add: pow2_def)
    have "rat_of_nat n / pow2 (e - 23) = of_int (int n * 2 ^ nat (- (e - 23)))"
      unfolding u by simp
    then have "round_even (of_nat n / pow2 (e - 23)) = int n * 2 ^ nat (- (e - 23))"
      by (simp only: round_even_of_int)
    then have "binary32 (of_nat n) = of_int (int n)"
      unfolding val u by simp
    then show ?thesis by blast
  qed
qed

lemma to_float_not_half: "odd c \<Longrightarrow> to_float n \<noteq> of_int c / 2"
proof
  assume "odd c" and "to_float n = of_int c / 2"
  then obtain m :: int where "rat_of_int m = of_int c / 2"
    using binary32_of_nat_integral [of n] by (auto simp: to_float_def)
  then have "rat_of_int (2 * m) = rat_of_int c" by simp
  then have "2 * m = c" using of_int_eq_iff by blast
  with \<open>odd c\<close> show False by auto
qed

lemma to_float_doubled_odd: "odd c \<Longrightarrow> to_float n * 2 \<noteq> of_int c"
  using to_float_not_half [of c n] by auto

lemma to_float_10: "to_float 10 = 10"
proof -
  have "binary32 10 = 10" by code_simp
  then show ?thesis by (simp add: to_float_def)
qed

lemma to_float_4: "to_float 4 = 4"
proof -
  have "binary32 4 = 4" by code_simp
  then show ?thesis by (simp add: to_float_def)
qed

lemma to_float_4097: "to_float 4097 = 4097"
proof -
  have "binary32 4097 = 4097" by code_simp
  then show ?thesis by (simp add: to_float_def)
qed

lemma to_float_3: "to_float 3 = 3"
proof -
  have "binary32 3 = 3" by code_simp
  then show ?thesis by (simp add: to_float_def)
qed

lemma to_size_t_values:
  "to_size_t (21 / 2) = Some 10" "to_size_t (7 / 2) = Some 3" "to_size_t (5 / 2) = Some 2"
  "to_size_t (12373197 / 4194304) = Some 2" "to_size_t 4097 = Some 4097"
  "to_size_t 4096 = Some 4096" "to_size_t (- (1 / 2)) = Some 0" "to_size_t (1 / 2) = Some 0"
  by (simp_all add: to_size_t_def floor_eq_iff nat_eq_iff)

section \<open>The patch buffer: what a repeated query does\<close>

lemma bufferPatch_downscaled:
  assumes "fDownscaleFullView base"
  shows "bufferPatch base alg wire drift =
     (case scaledDrift base drift of
        None \<Rightarrow> Inl Undefined_behaviour
      | Some sd \<Rightarrow>
          if fCurrentWireIdx alg = wire \<and> fCurrentScaledDrift alg = sd then Inr (True, alg)
          else
            (let (ok, patch') =
               patchFromDownsampledView base wire drift (fPatchSizeW alg) (fPatchSizeD alg)
                 (fWireDriftPatch alg)
             in Inr (ok, alg\<lparr>fCurrentWireIdx := wire, fCurrentScaledDrift := sd,
                              fWireDriftPatch := patch'\<rparr>)))"
  using assms
  by (simp add: bufferPatch_def bufferPatch3_def Let_def split: option.splits prod.splits)

lemma bufferPatch_raw:
  assumes "\<not> fDownscaleFullView base"
  shows "bufferPatch base alg wire drift =
     (if fCurrentWireIdx alg = wire \<and> to_float (fCurrentScaledDrift alg) = drift
      then Inr (True, alg)
      else
        (case to_size_t drift of
           None \<Rightarrow> Inl Undefined_behaviour
         | Some sd \<Rightarrow>
             (let (ok, patch') =
                patchFromOriginalView base wire drift (fPatchSizeW alg) (fPatchSizeD alg)
                  (fWireDriftPatch alg)
              in Inr (ok, alg\<lparr>fCurrentWireIdx := wire, fCurrentScaledDrift := sd,
                               fWireDriftPatch := patch'\<rparr>))))"
  using assms
  by (simp add: bufferPatch_def bufferPatch3_def Let_def split: option.splits prod.splits)

lemma bufferPatch_slots:
  assumes "bufferPatch base alg wire drift = Inr (r, alg1)"
  shows "fCurrentWireIdx alg1 = wire \<and>
     (if fDownscaleFullView base then scaledDrift base drift = Some (fCurrentScaledDrift alg1)
      else to_float (fCurrentScaledDrift alg1) = drift \<or>
           to_size_t drift = Some (fCurrentScaledDrift alg1))"
proof (cases "fDownscaleFullView base")
  case True
  with assms show ?thesis
    by (auto simp: bufferPatch_downscaled Let_def split: option.splits if_splits prod.splits)
next
  case False
  with assms show ?thesis
    by (auto simp: bufferPatch_raw Let_def split: option.splits if_splits prod.splits)
qed

lemma bufferPatch_hit:
  assumes "fCurrentWireIdx alg = wire"
    and "if fDownscaleFullView base then scaledDrift base drift = Some (fCurrentScaledDrift alg)
         else to_float (fCurrentScaledDrift alg) = drift"
  shows "bufferPatch base alg wire drift = Inr (True, alg)"
proof (cases "fDownscaleFullView base")
  case True
  with assms show ?thesis by (simp add: bufferPatch_downscaled)
next
  case False
  with assms show ?thesis by (simp add: bufferPatch_raw)
qed

lemma bufferPatch_failing_hit:
  assumes "patchFromDownsampledView base = failingView"
    and "patchFromOriginalView base = failingView"
    and "bufferPatch base alg wire drift = Inr (True, alg1)"
  shows "fCurrentWireIdx alg = wire \<and>
     (if fDownscaleFullView base then scaledDrift base drift = Some (fCurrentScaledDrift alg)
      else to_float (fCurrentScaledDrift alg) = drift)"
proof (cases "fDownscaleFullView base")
  case True
  with assms show ?thesis
    by (auto simp: bufferPatch_downscaled failingView_def split: option.splits if_splits)
next
  case False
  with assms show ?thesis
    by (auto simp: bufferPatch_raw failingView_def split: option.splits if_splits)
qed

lemma whole_number_slot:
  assumes "is_binary32 drift" and "drift = of_nat (nat \<lfloor>drift\<rfloor>)" and "drift < 2 ^ 64"
    and "to_float n = drift \<or> to_size_t drift = Some n"
  shows "to_float n = drift"
proof -
  have "0 \<le> drift" using assms(2) by (metis of_nat_0_le_iff)
  then have "to_size_t drift = Some (nat \<lfloor>drift\<rfloor>)" using assms(3) by (simp add: to_size_t_def)
  moreover have "to_float (nat \<lfloor>drift\<rfloor>) = drift"
    using assms(1,2) by (simp add: to_float_def is_binary32_def)
  ultimately show ?thesis using assms(4) by auto
qed

lemma whole_number_converts:
  assumes "drift = of_nat (nat \<lfloor>drift\<rfloor>)" and "drift < 2 ^ 64"
  shows "to_size_t drift = Some (nat \<lfloor>drift\<rfloor>)"
proof -
  have "0 \<le> drift" using assms(1) by (metis of_nat_0_le_iff)
  then show ?thesis using assms(2) by (simp add: to_size_t_def)
qed

lemma bufferPatch_repeat_hit:
  assumes "bufferPatch base alg wire drift1 = Inr (r, alg1)"
    and "fDownscaleFullView base" and "scaledDrift base drift2 = scaledDrift base drift1"
  shows "bufferPatch base alg1 wire drift2 = Inr (True, alg1)"
  using bufferPatch_slots [OF assms(1)] assms(2,3) by (intro bufferPatch_hit) simp_all

lemma bufferPatch_same_query_hit:
  assumes "bufferPatch base alg wire drift = Inr (r, alg1)"
    and "fDownscaleFullView base \<or>
         is_binary32 drift \<and> drift = of_nat (nat \<lfloor>drift\<rfloor>) \<and> drift < 2 ^ 64"
  shows "bufferPatch base alg1 wire drift = Inr (True, alg1)"
proof (cases "fDownscaleFullView base")
  case True
  with assms(1) show ?thesis by (intro bufferPatch_repeat_hit [OF assms(1)]) simp_all
next
  case False
  with assms(2) have whole: "is_binary32 drift" "drift = of_nat (nat \<lfloor>drift\<rfloor>)" "drift < 2 ^ 64"
    by auto
  from bufferPatch_slots [OF assms(1)] False
  have "to_float (fCurrentScaledDrift alg1) = drift \<or>
      to_size_t drift = Some (fCurrentScaledDrift alg1)" by simp
  with whole have "to_float (fCurrentScaledDrift alg1) = drift" by (rule whole_number_slot)
  with bufferPatch_slots [OF assms(1)] False show ?thesis by (intro bufferPatch_hit) simp_all
qed

lemma scaledDrift_floor:
  assumes "fDriftWindow base \<noteq> 0" and "0 \<le> drift"
    and "binary32 (drift / to_float (fDriftWindow base)) = drift / of_nat (fDriftWindow base)"
    and "drift / of_nat (fDriftWindow base) < 2 ^ 64"
  shows "scaledDrift base drift = Some (nat \<lfloor>drift / of_nat (fDriftWindow base)\<rfloor>)"
proof -
  have "0 \<le> drift / rat_of_nat (fDriftWindow base)"
    using assms(2) by (intro divide_nonneg_nonneg) simp_all
  then have "- 1 < drift / rat_of_nat (fDriftWindow base)" by linarith
  then show ?thesis using assms by (simp add: scaledDrift_def to_size_t_def)
qed

lemma scaledDrift_window_10:
  "scaledDrift window_10 25 = Some 2" "scaledDrift window_10 (59 / 2) = Some 2"
proof -
  have q: "binary32 (5 / 2) = 5 / 2" "binary32 (59 / 20) = 12373197 / 4194304"
    by code_simp+
  show "scaledDrift window_10 25 = Some 2"
    by (simp add: scaledDrift_def window_10_def to_float_10 q to_size_t_values)
  show "scaledDrift window_10 (59 / 2) = Some 2"
    by (simp add: scaledDrift_def window_10_def to_float_10 q to_size_t_values)
qed

lemma scaledDrift_window_4097:
  "scaledDrift window_4097 16785408 = Some 4097" "scaledDrift window_4097 16781312 = Some 4096"
proof -
  have q: "binary32 (16785408 / 4097) = 4097" "binary32 4096 = 4096"
    by code_simp+
  show "scaledDrift window_4097 16785408 = Some 4097"
    by (simp add: scaledDrift_def window_4097_def to_float_4097 q to_size_t_values)
  show "scaledDrift window_4097 16781312 = Some 4096"
    by (simp add: scaledDrift_def window_4097_def to_float_4097 q to_size_t_values)
qed

lemma scaledDrift_window_4:
  "scaledDrift window_4 (- 2) = Some 0" "scaledDrift window_4 2 = Some 0"
proof -
  have q: "binary32 (- (1 / 2)) = - (1 / 2)" "binary32 (1 / 2) = 1 / 2"
    by code_simp+
  show "scaledDrift window_4 (- 2) = Some 0"
    by (simp add: scaledDrift_def window_4_def to_float_4 q to_size_t_values)
  show "scaledDrift window_4 2 = Some 0"
    by (simp add: scaledDrift_def window_4_def to_float_4 q to_size_t_values)
qed

text \<open>
  C2, as the code has it. Two queries are treated as the same patch exactly when the
  wire indices are equal (the wire index is compared as it is) and the drifts agree
  under the drift policy. "Treated as the same patch" is read off the code: the query
  \<open>(wire1, drift1)\<close> returns, and after it the query \<open>(wire2, drift2)\<close> returns true with
  the object untouched, whatever the two extraction methods would do. In the downscaled
  mode the drifts agree when both bins \<^verbatim>\<open>(size_t)(drift / fDriftWindow)\<close> are defined
  and equal: the bin is the single-precision quotient with its fraction dropped. In the
  other mode, for a first drift that is a whole number, they agree when the two drift
  values are equal.
\<close>

theorem bufferPatch_same_patch_policy:
  assumes "fDownscaleFullView base \<or>
           is_binary32 drift1 \<and> drift1 = of_nat (nat \<lfloor>drift1\<rfloor>) \<and> drift1 < 2 ^ 64"
  shows "(\<forall>dv ov.
            let b = base\<lparr>patchFromDownsampledView := dv, patchFromOriginalView := ov\<rparr>
            in case bufferPatch b alg wire1 drift1 of
                 Inl f \<Rightarrow> False
               | Inr (r1, alg1) \<Rightarrow> bufferPatch b alg1 wire2 drift2 = Inr (True, alg1))
         = (wire1 = wire2 \<and>
            (if fDownscaleFullView base
             then scaledDrift base drift1 \<noteq> None \<and> scaledDrift base drift1 = scaledDrift base drift2
             else drift1 = drift2))"
  (is "?same = ?policy")
proof
  assume same: ?same
  define b where "b = base\<lparr>patchFromDownsampledView := failingView,
                          patchFromOriginalView := failingView\<rparr>"
  have cfg: "fDownscaleFullView b = fDownscaleFullView base" "scaledDrift b = scaledDrift base"
    by (auto simp: b_def scaledDrift_def fun_eq_iff)
  from same have "case bufferPatch b alg wire1 drift1 of
                 Inl f \<Rightarrow> False
               | Inr (r1, alg1) \<Rightarrow> bufferPatch b alg1 wire2 drift2 = Inr (True, alg1)"
    unfolding b_def by (simp add: Let_def)
  then obtain r1 alg1 where first: "bufferPatch b alg wire1 drift1 = Inr (r1, alg1)"
    and second: "bufferPatch b alg1 wire2 drift2 = Inr (True, alg1)"
    by (auto split: sum.splits)
  have hit: "fCurrentWireIdx alg1 = wire2 \<and>
     (if fDownscaleFullView b then scaledDrift b drift2 = Some (fCurrentScaledDrift alg1)
      else to_float (fCurrentScaledDrift alg1) = drift2)"
    using second by (intro bufferPatch_failing_hit) (simp_all add: b_def)
  note slots = bufferPatch_slots [OF first]
  show ?policy
  proof (cases "fDownscaleFullView base")
    case True
    with hit slots show ?thesis by (simp add: cfg)
  next
    case False
    with assms have whole: "is_binary32 drift1" "drift1 = of_nat (nat \<lfloor>drift1\<rfloor>)" "drift1 < 2 ^ 64"
      by auto
    from slots False have "to_float (fCurrentScaledDrift alg1) = drift1 \<or>
        to_size_t drift1 = Some (fCurrentScaledDrift alg1)"
      by (simp add: cfg)
    with whole have "to_float (fCurrentScaledDrift alg1) = drift1"
      by (rule whole_number_slot)
    with hit slots False show ?thesis by (simp add: cfg)
  qed
next
  assume policy: ?policy
  show ?same
  proof (intro allI)
    fix dv ov
    define b where "b = base\<lparr>patchFromDownsampledView := dv, patchFromOriginalView := ov\<rparr>"
    have cfg: "fDownscaleFullView b = fDownscaleFullView base" "scaledDrift b = scaledDrift base"
      by (auto simp: b_def scaledDrift_def fun_eq_iff)
    have "\<exists>r1 alg1. bufferPatch b alg wire1 drift1 = Inr (r1, alg1)"
    proof (cases "fDownscaleFullView base")
      case True
      with policy obtain sd where "scaledDrift base drift1 = Some sd"
        by (cases "scaledDrift base drift1") auto
      with True show ?thesis
        by (auto simp: bufferPatch_downscaled cfg Let_def split: prod.splits)
    next
      case False
      with assms have "to_size_t drift1 = Some (nat \<lfloor>drift1\<rfloor>)"
        by (intro whole_number_converts) auto
      with False show ?thesis
        by (auto simp: bufferPatch_raw cfg Let_def split: prod.splits)
    qed
    then obtain r1 alg1 where first: "bufferPatch b alg wire1 drift1 = Inr (r1, alg1)" by blast
    note slots = bufferPatch_slots [OF first]
    have "bufferPatch b alg1 wire2 drift2 = Inr (True, alg1)"
    proof (rule bufferPatch_hit)
      show "fCurrentWireIdx alg1 = wire2" using slots policy by simp
      show "if fDownscaleFullView b then scaledDrift b drift2 = Some (fCurrentScaledDrift alg1)
            else to_float (fCurrentScaledDrift alg1) = drift2"
      proof (cases "fDownscaleFullView base")
        case True
        with slots policy show ?thesis by (simp add: cfg)
      next
        case False
        with assms have whole: "is_binary32 drift1" "drift1 = of_nat (nat \<lfloor>drift1\<rfloor>)"
          "drift1 < 2 ^ 64" by auto
        from slots False have "to_float (fCurrentScaledDrift alg1) = drift1 \<or>
            to_size_t drift1 = Some (fCurrentScaledDrift alg1)"
          by (simp add: cfg)
        with whole have "to_float (fCurrentScaledDrift alg1) = drift1"
          by (rule whole_number_slot)
        with False policy show ?thesis by (simp add: cfg)
      qed
    qed
    with first show "let b = base\<lparr>patchFromDownsampledView := dv, patchFromOriginalView := ov\<rparr>
            in case bufferPatch b alg wire1 drift1 of
                 Inl f \<Rightarrow> False
               | Inr (r1, alg1) \<Rightarrow> bufferPatch b alg1 wire2 drift2 = Inr (True, alg1)"
      by (simp add: Let_def b_def)
  qed
qed

theorem bufferPatch_same_patch_policy_witness:
  "fDownscaleFullView window_10 \<and>
   scaledDrift window_10 25 = Some 2 \<and> scaledDrift window_10 (59 / 2) = Some 2 \<and>
   bufferPatch window_10 idle_alg 3 25 =
     Inr (False, idle_alg\<lparr>fCurrentWireIdx := 3, fCurrentScaledDrift := 2\<rparr>) \<and>
   bufferPatch window_10 (idle_alg\<lparr>fCurrentWireIdx := 3, fCurrentScaledDrift := 2\<rparr>) 3 (59 / 2) =
     Inr (True, idle_alg\<lparr>fCurrentWireIdx := 3, fCurrentScaledDrift := 2\<rparr>)"
proof -
  have ds: "fDownscaleFullView window_10" by (simp add: window_10_def)
  have same: "window_10\<lparr>patchFromDownsampledView := failingView,
                        patchFromOriginalView := failingView\<rparr> = window_10"
    by (simp add: window_10_def)
  have first: "bufferPatch window_10 idle_alg 3 25 =
      Inr (False, idle_alg\<lparr>fCurrentWireIdx := 3, fCurrentScaledDrift := 2\<rparr>)"
    by (simp add: bufferPatch_downscaled [OF ds] scaledDrift_window_10)
      (simp add: idle_alg_def window_10_def failingView_def)
  have "\<forall>dv ov.
      let b = window_10\<lparr>patchFromDownsampledView := dv, patchFromOriginalView := ov\<rparr>
      in case bufferPatch b idle_alg 3 25 of
           Inl f \<Rightarrow> False
         | Inr (r1, alg1) \<Rightarrow> bufferPatch b alg1 3 (59 / 2) = Inr (True, alg1)"
    using bufferPatch_same_patch_policy
      [where base = window_10 and alg = idle_alg and ?wire1.0 = 3 and ?wire2.0 = 3
         and ?drift1.0 = 25 and ?drift2.0 = "59 / 2"] ds
    by (simp add: scaledDrift_window_10)
  then have "let b = window_10\<lparr>patchFromDownsampledView := failingView,
                                 patchFromOriginalView := failingView\<rparr>
      in case bufferPatch b idle_alg 3 25 of
           Inl f \<Rightarrow> False
         | Inr (r1, alg1) \<Rightarrow> bufferPatch b alg1 3 (59 / 2) = Inr (True, alg1)"
    by blast
  then have "bufferPatch window_10 (idle_alg\<lparr>fCurrentWireIdx := 3, fCurrentScaledDrift := 2\<rparr>) 3
      (59 / 2) = Inr (True, idle_alg\<lparr>fCurrentWireIdx := 3, fCurrentScaledDrift := 2\<rparr>)"
    unfolding same Let_def first by simp
  with ds first show ?thesis by (simp add: scaledDrift_window_10)
qed

text \<open>
  C2 as stated fails, for it takes the bin to be \<open>\<lfloor>drift / DriftWindow\<rfloor>\<close>. With a window
  of 4097 the drifts 16785408 and 16781312 have the same floor, 4096, but the quotient
  of the first rounds to 4097.0: the bins are 4097 and 4096, and the second query
  extracts again. With a window of 4 the drifts -2 and 2 have the floors -1 and 0, but
  both bins are 0: the second query is taken for the same patch.
\<close>

theorem bufferPatch_bins_are_not_floors:
  "is_binary32 16785408 \<and> is_binary32 16781312 \<and>
   \<lfloor>(16785408 :: rat) / 4097\<rfloor> = \<lfloor>(16781312 :: rat) / 4097\<rfloor> \<and>
   bufferPatch window_4097 idle_alg 3 16785408 =
     Inr (False, idle_alg\<lparr>fCurrentWireIdx := 3, fCurrentScaledDrift := 4097\<rparr>) \<and>
   bufferPatch window_4097 (idle_alg\<lparr>fCurrentWireIdx := 3, fCurrentScaledDrift := 4097\<rparr>) 3
       16781312 =
     Inr (False, idle_alg\<lparr>fCurrentWireIdx := 3, fCurrentScaledDrift := 4096\<rparr>) \<and>
   is_binary32 (- 2) \<and> is_binary32 2 \<and>
   \<lfloor>(- 2 :: rat) / 4\<rfloor> \<noteq> \<lfloor>(2 :: rat) / 4\<rfloor> \<and>
   bufferPatch window_4 idle_alg 3 (- 2) =
     Inr (False, idle_alg\<lparr>fCurrentWireIdx := 3, fCurrentScaledDrift := 0\<rparr>) \<and>
   bufferPatch window_4 (idle_alg\<lparr>fCurrentWireIdx := 3, fCurrentScaledDrift := 0\<rparr>) 3 2 =
     Inr (True, idle_alg\<lparr>fCurrentWireIdx := 3, fCurrentScaledDrift := 0\<rparr>)"
proof -
  have floats: "is_binary32 16785408" "is_binary32 16781312" "is_binary32 (- 2)" "is_binary32 2"
  proof -
    have "binary32 16785408 = 16785408" "binary32 16781312 = 16781312"
      "binary32 (- 2) = - 2" "binary32 2 = 2"
      by code_simp+
    then show "is_binary32 16785408" "is_binary32 16781312" "is_binary32 (- 2)" "is_binary32 2"
      by (simp_all add: is_binary32_def)
  qed
  have floors: "\<lfloor>(16785408 :: rat) / 4097\<rfloor> = 4096" "\<lfloor>(16781312 :: rat) / 4097\<rfloor> = 4096"
    "\<lfloor>(- 2 :: rat) / 4\<rfloor> = - 1" "\<lfloor>(2 :: rat) / 4\<rfloor> = 0"
    by (simp_all add: floor_eq_iff)
  have ds: "fDownscaleFullView window_4097" "fDownscaleFullView window_4"
    by (simp_all add: window_4097_def window_4_def)
  have a: "bufferPatch window_4097 idle_alg 3 16785408 =
     Inr (False, idle_alg\<lparr>fCurrentWireIdx := 3, fCurrentScaledDrift := 4097\<rparr>)"
    by (simp add: bufferPatch_downscaled [OF ds(1)] scaledDrift_window_4097)
      (simp add: idle_alg_def window_4097_def failingView_def)
  have b: "bufferPatch window_4097 (idle_alg\<lparr>fCurrentWireIdx := 3, fCurrentScaledDrift := 4097\<rparr>) 3
       16781312 =
     Inr (False, idle_alg\<lparr>fCurrentWireIdx := 3, fCurrentScaledDrift := 4096\<rparr>)"
    by (simp add: bufferPatch_downscaled [OF ds(1)] scaledDrift_window_4097)
      (simp add: idle_alg_def window_4097_def failingView_def)
  have c: "bufferPatch window_4 idle_alg 3 (- 2) =
     Inr (False, idle_alg\<lparr>fCurrentWireIdx := 3, fCurrentScaledDrift := 0\<rparr>)"
    by (simp add: bufferPatch_downscaled [OF ds(2)] scaledDrift_window_4)
      (simp add: idle_alg_def window_4_def failingView_def)
  have d: "bufferPatch window_4 (idle_alg\<lparr>fCurrentWireIdx := 3, fCurrentScaledDrift := 0\<rparr>) 3 2 =
     Inr (True, idle_alg\<lparr>fCurrentWireIdx := 3, fCurrentScaledDrift := 0\<rparr>)"
    by (simp add: bufferPatch_downscaled [OF ds(2)] scaledDrift_window_4)
  from floats floors a b c d show ?thesis by simp
qed

text \<open>
  C1, at an input where the code departs from it. In the mode that does not downscale, the
  query \<open>(3, 10.5)\<close> runs \<^verbatim>\<open>patchFromOriginalView\<close> and stores the slot \<open>10\<close>; the same
  query again finds \<open>10 \<noteq> 10.5\<close>, runs \<^verbatim>\<open>patchFromOriginalView\<close> once more and returns
  what that returns, with the patch that leaves. The other branch converts the drift
  before it compares.
\<close>

theorem bufferPatch_raw_repeat_recomputes:
  "let b = base\<lparr>fDownscaleFullView := False\<rparr>;
       (ok1, patch1) =
         patchFromOriginalView b 3 (21 / 2) (fPatchSizeW alg) (fPatchSizeD alg) (fWireDriftPatch alg);
       alg1 = alg\<lparr>fCurrentWireIdx := 3, fCurrentScaledDrift := 10, fWireDriftPatch := patch1\<rparr>;
       (ok2, patch2) =
         patchFromOriginalView b 3 (21 / 2) (fPatchSizeW alg1) (fPatchSizeD alg1)
           (fWireDriftPatch alg1)
   in bufferPatch b alg 3 (21 / 2) = Inr (ok1, alg1) \<and>
      bufferPatch b alg1 3 (21 / 2) = Inr (ok2, alg1\<lparr>fWireDriftPatch := patch2\<rparr>)"
proof -
  have raw: "\<not> fDownscaleFullView (base\<lparr>fDownscaleFullView := False\<rparr>)" by simp
  have fractional: "to_float n * 2 \<noteq> 21" for n
    using to_float_doubled_odd [of 21 n] by simp
  show ?thesis
    by (simp add: bufferPatch_raw [OF raw] fractional to_size_t_values Let_def split: prod.splits)
qed

text \<open>
  C9, at an input where the code departs from it. In the mode that does not downscale, with
  an extraction that fails, the query \<open>(5, 3.5)\<close> returns false and stores the slot \<open>3\<close>;
  the same query again is no cache hit: it fails again.
\<close>

theorem bufferPatch_raw_failed_repeat_fails_again:
  "let b = base\<lparr>fDownscaleFullView := False, patchFromOriginalView := failingView\<rparr>;
       alg1 = alg\<lparr>fCurrentWireIdx := 5, fCurrentScaledDrift := 3\<rparr>
   in bufferPatch b alg 5 (7 / 2) = Inr (False, alg1) \<and>
      bufferPatch b alg1 5 (7 / 2) = Inr (False, alg1)"
proof -
  have raw: "\<not> fDownscaleFullView
      (base\<lparr>fDownscaleFullView := False, patchFromOriginalView := failingView\<rparr>)" by simp
  have fractional: "to_float n * 2 \<noteq> 7" for n
    using to_float_doubled_odd [of 7 n] by simp
  show ?thesis
    by (simp add: bufferPatch_raw [OF raw] fractional to_size_t_values Let_def failingView_def)
qed

section \<open>The writer within one event\<close>

lemma descriptionExists_count: "descriptionExists w n = (0 < descriptionCount w n)"
  by (auto simp: descriptionExists_def descriptionCount_def list_ex_iff filter_empty_conv
      split: option.splits)

lemma initOutputs_count_own:
  assumes "initOutputs N w T tag dataSize names = Inr (oid, w')"
  shows "descriptionCount w' (getProductName T) = 1"
proof (cases "fDescriptions w")
  case None
  with assms show ?thesis
    by (auto simp: initOutputs_def descriptionCount_def Let_def split: if_splits)
next
  case (Some ds)
  with assms have "\<not> descriptionExists w (getProductName T)"
    by (auto simp: initOutputs_def Let_def split: if_splits)
  then have "descriptionCount w (getProductName T) = 0"
    by (simp add: descriptionExists_count)
  with assms Some show ?thesis
    by (auto simp: initOutputs_def descriptionCount_def Let_def split: if_splits)
qed

lemma initOutputs_count_kept:
  assumes "initOutputs N w T tag dataSize names = Inr (oid, w')"
    and "descriptionCount w n = 1"
  shows "descriptionCount w' n = 1"
proof -
  from assms(2) obtain ds where ds: "fDescriptions w = Some ds"
    by (auto simp: descriptionCount_def split: option.splits)
  from assms(2) have "descriptionExists w n" by (simp add: descriptionExists_count)
  with assms(1) ds have "getProductName T \<noteq> n"
    by (auto simp: initOutputs_def Let_def split: if_splits)
  with assms ds show ?thesis
    by (auto simp: initOutputs_def descriptionCount_def Let_def split: if_splits)
qed

lemma call_count_kept:
  assumes "call N w c = Inr w'" and "descriptionCount w n = 1"
  shows "descriptionCount w' n = 1"
proof (cases c)
  case (InitOutputs T tag dataSize names)
  with assms(1) obtain oid where "initOutputs N w T tag dataSize names = Inr (oid, w')"
    by (auto split: sum.splits)
  then show ?thesis using assms(2) by (rule initOutputs_count_kept)
next
  case (SetOutput oid key vals)
  with assms show ?thesis
    by (auto simp: setOutput_def descriptionCount_def split: if_splits option.splits)
next
  case (AddOutput oid vals)
  with assms show ?thesis
    by (auto simp: addOutput_def descriptionCount_def split: if_splits option.splits)
qed

lemma calls_count_kept:
  "calls N w cs = Inr w' \<Longrightarrow> descriptionCount w n = 1 \<Longrightarrow> descriptionCount w' n = 1"
proof (induction cs arbitrary: w)
  case Nil
  then show ?case by simp
next
  case (Cons c cs)
  from Cons.prems(1) obtain w1 where step: "call N w c = Inr w1" and rest: "calls N w1 cs = Inr w'"
    by (auto split: sum.splits)
  from step Cons.prems(2) have "descriptionCount w1 n = 1" by (rule call_count_kept)
  with rest show ?case by (rule Cons.IH)
qed

lemma call_unregistered_kept:
  assumes "call N w c = Inr w'" and "\<not> initialises T c"
    and "fTypeHashToID w (getProductHash T) = None"
  shows "fTypeHashToID w' (getProductHash T) = None"
proof (cases c)
  case (InitOutputs T' tag dataSize names)
  with assms show ?thesis
    by (auto simp: initOutputs_def Let_def split: if_splits sum.splits)
next
  case (SetOutput oid key vals)
  with assms show ?thesis by (auto simp: setOutput_def split: if_splits)
next
  case (AddOutput oid vals)
  with assms show ?thesis by (auto simp: addOutput_def split: if_splits)
qed

lemma calls_unregistered_kept:
  "calls N w cs = Inr w' \<Longrightarrow> list_all (\<lambda>c. \<not> initialises T c) cs \<Longrightarrow>
   fTypeHashToID w (getProductHash T) = None \<Longrightarrow> fTypeHashToID w' (getProductHash T) = None"
proof (induction cs arbitrary: w)
  case Nil
  then show ?case by simp
next
  case (Cons c cs)
  from Cons.prems(1) obtain w1 where step: "call N w c = Inr w1" and rest: "calls N w1 cs = Inr w'"
    by (auto split: sum.splits)
  from Cons.prems(2) have c: "\<not> initialises T c" and cs: "list_all (\<lambda>c. \<not> initialises T c) cs"
    by simp_all
  from step c Cons.prems(3) have "fTypeHashToID w1 (getProductHash T) = None"
    by (rule call_unregistered_kept)
  with rest cs show ?case by (rule Cons.IH)
qed

lemma find_None_list_all: "(find P xs = None) = list_all (\<lambda>x. \<not> P x) xs"
  by (induction xs) auto

lemma find_Some_list_ex: "(\<exists>x. find P xs = Some x) = list_ex P xs"
  by (induction xs) auto

lemma emtrack_declared_eq:
  "emtrack_declared =
     \<lparr>fProducer = [Produces_MVADescriptions ''emtrack'', Produces_MVAOutputs ''emtrackrecob::Hit''],
      fInstanceName = ''emtrack'', fRegisteredDataTypes = [''recob::Hit''],
      fIsDescriptionRegistered = True, fTypeHashToID = Map.empty, fOutputs = [],
      fDescriptions = None\<rparr>"
  by (simp add: emtrack_declared_def produces_using_def MVAWriter_new_def recob_Hit_def Let_def)

lemma emtrack_hits_init:
  "initOutputs 2 emtrack_declared recob_Hit ''hits'' 1 [] = Inr (0, emtrack_hits)"
  by (simp add: emtrack_declared_eq initOutputs_def recob_Hit_def emtrack_hits_def Let_def
      numeral_2_eq_2)

lemma emtrack_hits_init_cleared:
  "initOutputs 2 (clearEventData emtrack_declared) recob_Hit ''hits'' 1 [] = Inr (0, emtrack_hits)"
  by (simp add: emtrack_declared_eq clearEventData_def initOutputs_def recob_Hit_def
      emtrack_hits_def Let_def numeral_2_eq_2)

text \<open>
  C3, as the code has it. Within an event (from the cleared writer, through any calls that
  succeed), as long as no \<^verbatim>\<open>initOutputs\<close> was made for the type \<open>T\<close>, every \<^verbatim>\<open>getOutput<T>\<close>
  throws the exception "MVA not initialized for product" with the name of \<open>T\<close>.
  \<^verbatim>\<open>setOutput\<close> and \<^verbatim>\<open>addOutput\<close> take an output ID, not a type: they look nothing up and
  throw no exception, and with the ID (and the key) in range they store the values in the
  collection that has this ID.
\<close>

theorem unregistered_type_lookup:
  assumes "calls N (clearEventData w0) cs = Inr w"
    and "list_all (\<lambda>c. \<not> initialises T c) cs"
  shows "getOutput w T key =
           Inl (Exception ''MVAWriter'' (''MVA not initialized for product '' @ getProductName T)) \<and>
         getOutput_accumulated accumulate w T =
           Inl (Exception ''MVAWriter'' (''MVA not initialized for product '' @ getProductName T)) \<and>
         setOutput w oid key values \<noteq> Inl (Exception category message) \<and>
         addOutput w oid values \<noteq> Inl (Exception category message) \<and>
         (oid < length (fOutputs w) \<and> key < length (fOutputs w ! oid) \<longrightarrow>
            setOutput w oid key values =
              Inr (w\<lparr>fOutputs := (fOutputs w)[oid := (fOutputs w ! oid)[key := values]]\<rparr>)) \<and>
         (oid < length (fOutputs w) \<longrightarrow>
            addOutput w oid values =
              Inr (w\<lparr>fOutputs := (fOutputs w)[oid := fOutputs w ! oid @ [values]]\<rparr>))"
proof -
  have "fTypeHashToID (clearEventData w0) (getProductHash T) = None"
    by (simp add: clearEventData_def)
  with assms have "fTypeHashToID w (getProductHash T) = None"
    by (rule calls_unregistered_kept)
  then show ?thesis
    by (simp add: getOutput_def getOutput_accumulated_def getProductID_def setOutput_def
        addOutput_def)
qed

theorem unregistered_type_lookup_witness:
  "calls 2 (clearEventData emtrack_declared) [InitOutputs recob_Hit ''hits'' 1 []] = Inr emtrack_hits \<and>
   list_all (\<lambda>c. \<not> initialises recob_Cluster c) [InitOutputs recob_Hit ''hits'' 1 []] \<and>
   getOutput emtrack_hits recob_Cluster 0 =
     Inl (Exception ''MVAWriter'' ''MVA not initialized for product recob::Cluster'') \<and>
   getOutput_accumulated hd emtrack_hits recob_Cluster =
     Inl (Exception ''MVAWriter'' ''MVA not initialized for product recob::Cluster'')"
proof -
  have run: "calls 2 (clearEventData emtrack_declared) [InitOutputs recob_Hit ''hits'' 1 []] =
      Inr emtrack_hits"
    using emtrack_hits_init_cleared by simp
  have others: "list_all (\<lambda>c. \<not> initialises recob_Cluster c) [InitOutputs recob_Hit ''hits'' 1 []]"
    by (simp add: recob_Hit_def recob_Cluster_def)
  from unregistered_type_lookup [OF run others, of 0 hd] run others
  show ?thesis by (simp add: recob_Cluster_def)
qed

text \<open>
  C3 as stated fails for \<^verbatim>\<open>setOutput\<close> and \<^verbatim>\<open>addOutput\<close>: with \<^verbatim>\<open>recob::Hit\<close> initialised
  and \<^verbatim>\<open>recob::Cluster\<close> not, both calls at ID 0 return normally and write into the
  collection of the hits.
\<close>

theorem setOutput_addOutput_make_no_lookup:
  "calls 2 (clearEventData emtrack_declared) [InitOutputs recob_Hit ''hits'' 1 []] = Inr emtrack_hits \<and>
   fTypeHashToID emtrack_hits (getProductHash recob_Cluster) = None \<and>
   setOutput emtrack_hits 0 0 [1 / 4, 3 / 4] = Inr (emtrack_hits\<lparr>fOutputs := [[[1 / 4, 3 / 4]]]\<rparr>) \<and>
   addOutput emtrack_hits 0 [1 / 4, 3 / 4] =
     Inr (emtrack_hits\<lparr>fOutputs := [[[0, 0], [1 / 4, 3 / 4]]]\<rparr>)"
proof -
  have "calls 2 (clearEventData emtrack_declared) [InitOutputs recob_Hit ''hits'' 1 []] =
      Inr emtrack_hits"
    using emtrack_hits_init_cleared by simp
  then show ?thesis
    by (simp add: emtrack_hits_def recob_Cluster_def setOutput_def addOutput_def)
qed

text \<open>
  C4. After \<^verbatim>\<open>initOutputs<T>\<close> has succeeded, and after any further calls of the same event
  that succeed, \<^verbatim>\<open>initOutputs<T>\<close> throws "MVADescription<N> already initialized for" with
  the name of \<open>T\<close>, whatever its arguments; the writer, which the throw leaves as it
  was, holds exactly one Description for \<open>T\<close>.
\<close>

theorem initOutputs_twice_is_fatal:
  assumes "initOutputs N w T tag dataSize names = Inr (oid, w1)"
    and "calls N w1 cs = Inr w2"
  shows "initOutputs N w2 T tag' dataSize' names' =
           Inl (Exception ''MVAWriter''
                  (''MVADescription<N> already initialized for '' @ getProductName T)) \<and>
         descriptionCount w2 (getProductName T) = 1"
proof -
  from assms(1) have "descriptionCount w1 (getProductName T) = 1"
    by (rule initOutputs_count_own)
  with assms(2) have one: "descriptionCount w2 (getProductName T) = 1"
    by (rule calls_count_kept)
  then have "descriptionExists w2 (getProductName T)"
    by (simp add: descriptionExists_count)
  moreover from one have "fDescriptions w2 \<noteq> None"
    by (auto simp: descriptionCount_def split: option.splits)
  ultimately show ?thesis using one by (simp add: initOutputs_def)
qed

theorem initOutputs_twice_is_fatal_witness:
  "initOutputs 2 emtrack_declared recob_Hit ''hits'' 1 [] = Inr (0, emtrack_hits) \<and>
   calls 2 emtrack_hits [SetOutput 0 0 [3 / 4, 1 / 4]] =
     Inr (emtrack_hits\<lparr>fOutputs := [[[3 / 4, 1 / 4]]]\<rparr>) \<and>
   initOutputs 2 (emtrack_hits\<lparr>fOutputs := [[[3 / 4, 1 / 4]]]\<rparr>) recob_Hit ''hits'' 1 [] =
     Inl (Exception ''MVAWriter'' ''MVADescription<N> already initialized for recob::Hit'') \<and>
   descriptionCount (emtrack_hits\<lparr>fOutputs := [[[3 / 4, 1 / 4]]]\<rparr>) ''recob::Hit'' = 1"
proof -
  have run: "calls 2 emtrack_hits [SetOutput 0 0 [3 / 4, 1 / 4]] =
     Inr (emtrack_hits\<lparr>fOutputs := [[[3 / 4, 1 / 4]]]\<rparr>)"
    by (simp add: setOutput_def emtrack_hits_def)
  from initOutputs_twice_is_fatal [OF emtrack_hits_init run, of "''hits''" 1 "[]"]
    emtrack_hits_init run
  show ?thesis by (simp add: recob_Hit_def)
qed

text \<open>
  C5. \<^verbatim>\<open>saveOutputs\<close> throws exactly when a registered type name has no Description or
  the number of Output collections differs from the number of Descriptions; it returns
  exactly when both checks pass, and then it has put every Output collection under the
  instance name of its Description, and the Descriptions under the writer's name. The
  hypothesis leaves out the writer with no registered type and no Description container,
  where the second check dereferences a null pointer.
\<close>

theorem saveOutputs_validates:
  assumes "fRegisteredDataTypes w \<noteq> [] \<or> fDescriptions w \<noteq> None"
  shows "(\<exists>msg. saveOutputs w evt = Inl (Exception ''MVAWriter'' msg)) =
           (list_ex (\<lambda>n. \<not> descriptionExists w n) (fRegisteredDataTypes w) \<or>
            length (fOutputs w) \<noteq> length (case fDescriptions w of None \<Rightarrow> [] | Some ds \<Rightarrow> ds)) \<and>
         (\<exists>evt' w'. saveOutputs w evt = Inr (evt', w')) =
           (list_all (descriptionExists w) (fRegisteredDataTypes w) \<and>
            length (fOutputs w) = length (case fDescriptions w of None \<Rightarrow> [] | Some ds \<Rightarrow> ds)) \<and>
         (list_all (descriptionExists w) (fRegisteredDataTypes w) \<and>
          length (fOutputs w) = length (case fDescriptions w of None \<Rightarrow> [] | Some ds \<Rightarrow> ds) \<longrightarrow>
          saveOutputs w evt =
            Inr (evt @ map2 (\<lambda>out d. (outputInstance d, MVAOutputs out)) (fOutputs w)
                        (case fDescriptions w of None \<Rightarrow> [] | Some ds \<Rightarrow> ds)
                     @ [(fInstanceName w, MVADescriptions (case fDescriptions w of None \<Rightarrow> [] | Some ds \<Rightarrow> ds))],
                 clearEventData w))"
proof (cases "find (\<lambda>n. \<not> descriptionExists w n) (fRegisteredDataTypes w)")
  case (Some n)
  then have ex: "list_ex (\<lambda>n. \<not> descriptionExists w n) (fRegisteredDataTypes w)"
    using find_Some_list_ex [of "\<lambda>n. \<not> descriptionExists w n" "fRegisteredDataTypes w"] by blast
  then have nall: "\<not> list_all (descriptionExists w) (fRegisteredDataTypes w)"
    by (auto simp: list_ex_iff list_all_iff)
  from Some ex nall show ?thesis by (simp add: saveOutputs_def)
next
  case None
  then have all: "list_all (descriptionExists w) (fRegisteredDataTypes w)"
    by (simp add: find_None_list_all)
  then have nex: "\<not> list_ex (\<lambda>n. \<not> descriptionExists w n) (fRegisteredDataTypes w)"
    by (auto simp: list_ex_iff list_all_iff)
  have "fDescriptions w \<noteq> None"
  proof
    assume none: "fDescriptions w = None"
    with assms obtain n rest where "fRegisteredDataTypes w = n # rest"
      by (cases "fRegisteredDataTypes w") auto
    with all have "descriptionExists w n" by simp
    with none show False by (simp add: descriptionExists_def)
  qed
  then obtain ds where ds: "fDescriptions w = Some ds" by blast
  from None all nex ds show ?thesis by (simp add: saveOutputs_def)
qed

theorem saveOutputs_validates_witness:
  "fRegisteredDataTypes emtrack_declared \<noteq> [] \<and>
   (\<exists>msg. saveOutputs emtrack_declared [] = Inl (Exception ''MVAWriter'' msg)) \<and>
   fRegisteredDataTypes emtrack_hits \<noteq> [] \<and>
   (\<exists>evt' w'. saveOutputs emtrack_hits [] = Inr (evt', w'))"
proof -
  have d: "fRegisteredDataTypes emtrack_declared \<noteq> []"
    by (simp add: emtrack_declared_eq)
  have h: "fRegisteredDataTypes emtrack_hits \<noteq> []"
    by (simp add: emtrack_hits_def)
  have "\<exists>msg. saveOutputs emtrack_declared [] = Inl (Exception ''MVAWriter'' msg)"
    using saveOutputs_validates [of emtrack_declared "[]"] d
    by (simp add: emtrack_declared_eq descriptionExists_def)
  moreover have "\<exists>evt' w'. saveOutputs emtrack_hits [] = Inr (evt', w')"
    using saveOutputs_validates [of emtrack_hits "[]"] h
    by (simp add: emtrack_hits_def descriptionExists_def)
  ultimately show ?thesis using d h by blast
qed

text \<open>
  C6. After \<^verbatim>\<open>saveOutputs\<close> has returned, the registry from type hash to ID is empty, there
  are no Output collections and the Description container is null, while the fields set
  for the life of the module (registered type names, the flag, the instance name, the
  producer) are as before.
\<close>

theorem saveOutputs_resets_event_data:
  assumes "saveOutputs w evt = Inr (evt', w')"
  shows "fTypeHashToID w' = Map.empty \<and> fOutputs w' = [] \<and> fDescriptions w' = None \<and>
         fRegisteredDataTypes w' = fRegisteredDataTypes w \<and>
         fIsDescriptionRegistered w' = fIsDescriptionRegistered w \<and>
         fInstanceName w' = fInstanceName w \<and> fProducer w' = fProducer w"
proof -
  from assms have "w' = clearEventData w"
    by (auto simp: saveOutputs_def split: option.splits if_splits)
  then show ?thesis by (simp add: clearEventData_def)
qed

theorem saveOutputs_resets_event_data_witness:
  "saveOutputs emtrack_hits [] =
     Inr ([(''emtrackrecob::Hit'', MVAOutputs [[0, 0]]),
           (''emtrack'', MVADescriptions [\<lparr>dataTag = ''hits'', outputInstance = ''emtrackrecob::Hit''\<rparr>])],
          clearEventData emtrack_hits) \<and>
   fTypeHashToID (clearEventData emtrack_hits) = Map.empty \<and>
   fOutputs (clearEventData emtrack_hits) = [] \<and>
   fDescriptions (clearEventData emtrack_hits) = None \<and>
   fRegisteredDataTypes (clearEventData emtrack_hits) = [''recob::Hit''] \<and>
   fIsDescriptionRegistered (clearEventData emtrack_hits) = True"
proof -
  have saved: "saveOutputs emtrack_hits [] =
     Inr ([(''emtrackrecob::Hit'', MVAOutputs [[0, 0]]),
           (''emtrack'', MVADescriptions [\<lparr>dataTag = ''hits'', outputInstance = ''emtrackrecob::Hit''\<rparr>])],
          clearEventData emtrack_hits)"
    by (simp add: saveOutputs_def emtrack_hits_def descriptionExists_def)
  from saveOutputs_resets_event_data [OF saved] saved show ?thesis
    by (simp add: emtrack_hits_def)
qed

section \<open>Accumulated outputs\<close>

lemma weighted_fold_uniform:
  "foldl (\<lambda>acc (key, wt). map2 (\<lambda>a x. a + wt * x) acc (outs ! key)) acc
     (zip items (replicate (length items) (1 :: rat))) =
   foldl (\<lambda>acc key. map2 (+) acc (outs ! key)) acc items"
proof (induction items arbitrary: acc)
  case Nil
  then show ?case by simp
next
  case (Cons key items)
  have "map2 (\<lambda>a x. a + 1 * x) acc (outs ! key) = map2 (+) acc (outs ! key)"
    by simp
  then show ?case using Cons.IH by simp
qed

lemma uniform_total_weight:
  "sum_list (map snd (zip items (replicate (length items) (1 :: rat)))) = of_nat (length items)"
  by (simp add: sum_list_replicate)

lemma pAccumulate_uniform_weights:
  "pAccumulate_weights N items (replicate (length items) 1) outs = pAccumulate N items outs"
proof (cases "items = []")
  case True
  then show ?thesis by (simp add: pAccumulate_weights_def pAccumulate_def)
next
  case False
  then have "rat_of_nat (length items) \<noteq> 0" by simp
  with False show ?thesis
    unfolding pAccumulate_weights_def pAccumulate_def Let_def uniform_total_weight
      weighted_fold_uniform
    by simp
qed

lemma pAccumulate_uniform_fweight:
  "pAccumulate_fweight N items (\<lambda>item. 1) outs = pAccumulate N items outs"
  unfolding pAccumulate_fweight_def
  by (simp add: map_replicate_const pAccumulate_uniform_weights)

text \<open>
  C7, on the accumulation as the spec words it. For a registered type and a non-empty
  list of items whose score vectors are stored, the accumulation weighted by weights
  that are all 1, the accumulation weighted by the constant function 1, and the
  unweighted accumulation return the same vector: the mean of the stored vectors. The
  equality is exact in the rationals.
\<close>

theorem getOutput_uniform_weights:
  assumes "getProductID w T = Inr oid" and "oid < length (fOutputs w)"
    and "items \<noteq> []" and "list_all (\<lambda>key. key < length (fOutputs w ! oid)) items"
  shows "getOutput_accumulated (pAccumulate_weights N items (replicate (length items) 1)) w T =
           getOutput_accumulated (pAccumulate N items) w T \<and>
         getOutput_accumulated (pAccumulate_fweight N items (\<lambda>item. 1)) w T =
           getOutput_accumulated (pAccumulate N items) w T \<and>
         getOutput_accumulated (pAccumulate N items) w T =
           Inr (map (\<lambda>s. s / of_nat (length items))
                  (foldl (\<lambda>acc key. map2 (+) acc (fOutputs w ! oid ! key)) (replicate N 0) items))"
  using assms
  by (simp add: getOutput_accumulated_def pAccumulate_uniform_weights pAccumulate_uniform_fweight)
    (simp add: pAccumulate_def)

theorem getOutput_uniform_weights_witness:
  "getProductID emtrack_scored recob_Hit = Inr 0 \<and>
   list_all (\<lambda>key. key < length (fOutputs emtrack_scored ! 0)) [0, 1] \<and>
   getOutput_accumulated (pAccumulate_weights 2 [0, 1] [1, 1]) emtrack_scored recob_Hit =
     Inr [2 / 5, 3 / 5] \<and>
   getOutput_accumulated (pAccumulate_fweight 2 [0, 1] (\<lambda>item. 1)) emtrack_scored recob_Hit =
     Inr [2 / 5, 3 / 5] \<and>
   getOutput_accumulated (pAccumulate 2 [0, 1]) emtrack_scored recob_Hit = Inr [2 / 5, 3 / 5]"
proof -
  have id: "getProductID emtrack_scored recob_Hit = Inr 0"
    by (simp add: getProductID_def emtrack_scored_def emtrack_hits_def recob_Hit_def)
  have range: "0 < length (fOutputs emtrack_scored)"
    by (simp add: emtrack_scored_def emtrack_hits_def)
  have outs: "fOutputs emtrack_scored ! 0 = [[1 / 5, 4 / 5], [3 / 5, 2 / 5]]"
    by (simp add: emtrack_scored_def emtrack_hits_def)
  have stored: "list_all (\<lambda>key. key < length (fOutputs emtrack_scored ! 0)) [0, 1]"
    by (simp add: outs)
  have two: "replicate (length [0 :: nat, 1]) (1 :: rat) = [1, 1]"
    by (simp add: numeral_2_eq_2)
  have mean: "map (\<lambda>s. s / of_nat (length [0 :: nat, 1]))
      (foldl (\<lambda>acc key. map2 (+) acc (fOutputs emtrack_scored ! 0 ! key)) (replicate 2 0) [0, 1]) =
      [2 / 5, 3 / 5 :: rat]"
    by (simp add: outs numeral_2_eq_2)
  from getOutput_uniform_weights [OF id range _ stored, of 2] id stored
  show ?thesis unfolding two mean by simp
qed

section \<open>Errors of the inference server\<close>

text \<open>
  C8. \<^verbatim>\<open>throwIfError\<close> returns exactly when the error is OK and otherwise throws
  \<^verbatim>\<open>TritonServerFailure\<close>, whose text starts with the message it was given;
  \<^verbatim>\<open>warnIfError\<close> always returns, returns \<^verbatim>\<open>IsOk()\<close>, and adds one warning to the log
  when the error is not OK and none when it is.
\<close>

theorem triton_error_policy:
  "(throwIfError err msg = Inr ()) = IsOk err \<and>
   (throwIfError err msg =
      Inl (Exception ''TritonServerFailure'' (msg @ '': '' @ printed err))) = (\<not> IsOk err) \<and>
   warnIfError logger err msg =
     Inr (IsOk err,
          if IsOk err then logger
          else logger @ [(''TritonServerWarning'', msg @ '': '' @ printed err)])"
  by (simp add: throwIfError_def warnIfError_def)

section \<open>The cluster finder\<close>

lemma collectByApaView_returns:
  "fNChanPerApa m \<noteq> 0 \<Longrightarrow> \<exists>r. collectByApaView m ws acc = Inr r"
  by (induction ws arbitrary: acc) (simp_all add: GetApaView_def)

text \<open>
  C10. \<^verbatim>\<open>produce\<close> puts one collection of wires into the event, and it is empty, whatever
  the wires it reads. The hypothesis leaves out a module configured with zero channels
  per APA, where \<^verbatim>\<open>GetApaView\<close> divides by zero.
\<close>

theorem produce_puts_one_empty_collection:
  assumes "fNChanPerApa m \<noteq> 0"
  shows "produce m wireListHandle e = Inr (e @ [[]])"
proof -
  obtain r where "collectByApaView m (case wireListHandle of Some ws \<Rightarrow> ws | None \<Rightarrow> []) Map.empty = Inr r"
    using collectByApaView_returns [OF assms] by blast
  then show ?thesis by (simp add: produce_def)
qed

theorem produce_puts_one_empty_collection_witness:
  "fNChanPerApa apa_module \<noteq> 0 \<and> produce apa_module (Some [wire_2600]) [] = Inr [[]]"
  using produce_puts_one_empty_collection [of apa_module "Some [wire_2600]" "[]"]
  by (simp add: apa_module_def)

end
